theory Spec2Isabelle
  imports Complex_Main
begin

section \<open>Data model\<close>

text \<open>
  The two Mongoose models of the backend. An ObjectId is modelled by its canonical string
  form (what \<^verbatim>\<open>_id.toString()\<close> yields: 24 lower-case hexadecimal digits); a Date is a
  number of milliseconds. String fields hold the value after the schema's setters
  (\<^verbatim>\<open>trim\<close>, \<^verbatim>\<open>lowercase\<close>). The task handlers apply the setters to what the body gives,
  and the user handlers cast the id of the route; the bodies of the authentication
  and user handlers give name and email in the form the setters leave, and the task
  handlers are given the id of a task in canonical form. An optional field that may be
  undefined is an option.
\<close>

type_synonym oid = string
type_synonym date = nat

record user =
  u_id :: oid
  u_name :: string
  u_email :: string
  u_password :: string
  u_role :: string
  u_refreshToken :: "string option"
  u_passwordChangedAt :: "date option"

record task =
  t_id :: oid
  t_title :: string
  t_description :: "string option"
  t_status :: string
  t_priority :: string
  t_dueDate :: "date option"
  t_tags :: "string list"
  t_user :: oid
  t_completedAt :: "date option"
  t_createdAt :: date
  t_updatedAt :: date

text \<open>The persistent store: the two collections, in insertion order.\<close>

record db =
  users :: "user list"
  tasks :: "task list"

text \<open>
  The response envelope \<^verbatim>\<open>{success, message, data, errors}\<close> together with the HTTP
  status. \<open>errors\<close> is the list of \<^verbatim>\<open>{field, message}\<close> pairs, empty when the key is
  undefined.
\<close>

record 'a response =
  status :: nat
  success :: bool
  message :: "string option"
  data :: "'a option"
  errors :: "(string \<times> string) list"

definition fail :: "nat \<Rightarrow> string \<Rightarrow> 'a response" where
  "fail code msg =
     \<lparr>status = code, success = False, message = Some msg, data = None, errors = []\<rparr>"

definition ok_msg :: "nat \<Rightarrow> string \<Rightarrow> 'a response" where
  "ok_msg code msg =
     \<lparr>status = code, success = True, message = Some msg, data = None, errors = []\<rparr>"

definition ok_data :: "nat \<Rightarrow> string option \<Rightarrow> 'a \<Rightarrow> 'a response" where
  "ok_data code msg d =
     \<lparr>status = code, success = True, message = msg, data = Some d, errors = []\<rparr>"

text \<open>
  The global error handler for a Mongoose \<^verbatim>\<open>ValidationError\<close>: status 400,
  \<^verbatim>\<open>Validation failed\<close>, one entry per failing path.
\<close>

definition validation_failed :: "(string \<times> string) list \<Rightarrow> 'a response" where
  "validation_failed es =
     \<lparr>status = 400, success = False, message = Some ''Validation failed'', data = None,
      errors = es\<rparr>"

section \<open>Strings and ids of a request\<close>

text \<open>
  \<^verbatim>\<open>String.prototype.trim\<close> and \<^verbatim>\<open>toLowerCase\<close> on ASCII, which is also what the schema
  setters \<^verbatim>\<open>trim: true\<close> and \<^verbatim>\<open>lowercase: true\<close> apply.
\<close>

definition is_ws :: "char \<Rightarrow> bool" where
  "is_ws c \<longleftrightarrow> c \<in> set [CHR '' '', CHR 0x09, CHR 0x0A, CHR 0x0B, CHR 0x0C, CHR 0x0D]"

fun pos :: "'a \<Rightarrow> 'a list \<Rightarrow> nat option" where
  "pos c [] = None"
| "pos c (x # xs) = (if c = x then Some 0 else map_option Suc (pos c xs))"

definition trim :: "string \<Rightarrow> string" where
  "trim s = rev (dropWhile is_ws (rev (dropWhile is_ws s)))"

definition toLowerCase :: "string \<Rightarrow> string" where
  "toLowerCase s =
     map (\<lambda>c. case pos c ''ABCDEFGHIJKLMNOPQRSTUVWXYZ'' of
                 Some k \<Rightarrow> ''abcdefghijklmnopqrstuvwxyz'' ! k
               | None \<Rightarrow> c) s"

text \<open>A string from the request is truthy when it is present and not empty.\<close>

definition truthy :: "string option \<Rightarrow> bool" where
  "truthy v = (case v of None \<Rightarrow> False | Some x \<Rightarrow> x \<noteq> [])"

text \<open>
  The cast of a request string to an ObjectId, which the store applies to every id in a
  filter: 24 hexadecimal digits in either case name the id they spell. Any other string
  raises \<^verbatim>\<open>CastError\<close>, which the error handler answers 404 \<^verbatim>\<open>Resource not found\<close>.
\<close>

definition is_hex :: "char \<Rightarrow> bool" where
  "is_hex c \<longleftrightarrow> c \<in> set ''0123456789abcdefABCDEF''"

definition castObjectId :: "string \<Rightarrow> oid option" where
  "castObjectId s = (if length s = 24 \<and> list_all is_hex s then Some (toLowerCase s) else None)"

section \<open>Libraries the handlers call\<close>

text \<open>
  bcrypt, jsonwebtoken, the clock and the store's id generator are not code of the
  repository; they are parameters of the model. \<open>jwt_verify\<close> is
  \<^verbatim>\<open>jwt.verify(token, JWT_REFRESH_SECRET)\<close>: it throws one of two errors or returns the
  \<^verbatim>\<open>id\<close> of the payload. \<open>jwt_sign_access\<close> and \<open>jwt_sign_refresh\<close> are \<^verbatim>\<open>jwt.sign\<close>
  with the access and the refresh secret and expiry of the process: the token is a
  function of the payload and of the second it is issued in (the \<^verbatim>\<open>iat\<close> claim), so two
  tokens signed for one payload within one second are the same string. \<open>now\<close> is
  \<^verbatim>\<open>new Date()\<close> in milliseconds and \<open>today\<close> the local midnight before it.
  \<open>valid_email\<close> is the match of the schema's email pattern, \<open>regex_i pattern subject\<close>
  the store's case-insensitive \<^verbatim>\<open>$regex\<close>, \<open>sort_docs field direction\<close> the store's
  ordering of a result, and \<open>store_error_message\<close> the text of the error the store
  raises for a query it rejects.
\<close>

datatype jwt_error = JsonWebTokenError | TokenExpiredError

record env =
  now :: date
  today :: date
  new_id :: oid
  bcrypt_hash :: "string \<Rightarrow> string"
  bcrypt_compare :: "string \<Rightarrow> string \<Rightarrow> bool"
  jwt_verify :: "string \<Rightarrow> jwt_error + oid"
  jwt_sign_access :: "oid \<Rightarrow> string \<Rightarrow> string \<Rightarrow> nat \<Rightarrow> string"
  jwt_sign_refresh :: "oid \<Rightarrow> nat \<Rightarrow> string"
  valid_email :: "string \<Rightarrow> bool"
  regex_i :: "string \<Rightarrow> string \<Rightarrow> bool"
  sort_docs :: "string \<Rightarrow> int \<Rightarrow> task list \<Rightarrow> task list"
  store_error_message :: string

section \<open>Store operations on users\<close>

definition findById :: "user list \<Rightarrow> oid \<Rightarrow> user option" where
  "findById us i = find (\<lambda>u. u_id u = i) us"

definition findOneByEmail :: "user list \<Rightarrow> string \<Rightarrow> user option" where
  "findOneByEmail us e = find (\<lambda>u. u_email u = e) us"

text \<open>
  \<^verbatim>\<open>updateOne({_id: i}, {$set: ...})\<close>, which is also what \<^verbatim>\<open>doc.save()\<close> sends for the
  modified paths of a loaded document.
\<close>

definition updateById :: "oid \<Rightarrow> (user \<Rightarrow> user) \<Rightarrow> user list \<Rightarrow> user list" where
  "updateById i f us = map (\<lambda>u. if u_id u = i then f u else u) us"

section \<open>Authentication controller\<close>

record auth_data =
  ad_id :: oid
  ad_name :: string
  ad_email :: string
  ad_role :: string
  ad_accessToken :: string
  ad_refreshToken :: string

text \<open>The two token methods of the user model.\<close>

definition generateAccessToken :: "env \<Rightarrow> user \<Rightarrow> string" where
  "generateAccessToken e u =
     jwt_sign_access e (u_id u) (u_email u) (u_role u) (now e div 1000)"

definition generateRefreshToken :: "env \<Rightarrow> user \<Rightarrow> string" where
  "generateRefreshToken e u = jwt_sign_refresh e (u_id u) (now e div 1000)"

text \<open>
  \<^verbatim>\<open>sendTokenResponse\<close>: both tokens are signed from the document in memory, the
  refresh token is written to the stored account, and the envelope carries the public
  fields with both tokens.
\<close>

definition sendTokenResponse ::
  "env \<Rightarrow> db \<Rightarrow> user \<Rightarrow> nat \<Rightarrow> string \<Rightarrow> auth_data response \<times> db" where
  "sendTokenResponse e d u code msg =
     (let accessToken = generateAccessToken e u;
          refreshToken = generateRefreshToken e u;
          d' = d\<lparr>users := updateById (u_id u) (\<lambda>x. x\<lparr>u_refreshToken := Some refreshToken\<rparr>)
                    (users d)\<rparr>
      in (ok_data code (Some msg)
            \<lparr>ad_id = u_id u, ad_name = u_name u, ad_email = u_email u, ad_role = u_role u,
             ad_accessToken = accessToken, ad_refreshToken = refreshToken\<rparr>, d'))"

text \<open>
  Schema validation of a user document (\<^verbatim>\<open>User.create\<close>): the failing paths with their
  messages, in schema order. The email pattern is the parameter \<open>valid_email\<close>.
\<close>

definition validate_user :: "env \<Rightarrow> string \<Rightarrow> string \<Rightarrow> string \<Rightarrow> (string \<times> string) list" where
  "validate_user e nm em pw =
     (if nm = [] then [(''name'', ''Name is required'')]
      else if length nm < 2 then [(''name'', ''Name must be at least 2 characters'')]
      else if 50 < length nm then [(''name'', ''Name cannot exceed 50 characters'')]
      else []) @
     (if em = [] then [(''email'', ''Email is required'')]
      else if \<not> valid_email e em then [(''email'', ''Please provide a valid email'')]
      else []) @
     (if pw = [] then [(''password'', ''Password is required'')]
      else if length pw < 6 then [(''password'', ''Password must be at least 6 characters'')]
      else [])"

record register_body =
  rb_name :: string
  rb_email :: string
  rb_password :: string
  rb_role :: "string option"

text \<open>\<^verbatim>\<open>['user', 'admin'].includes(role) ? role : 'user'\<close>, with \<open>None\<close> for an absent role.\<close>

definition validRole :: "string option \<Rightarrow> string" where
  "validRole r =
     (case r of
        None \<Rightarrow> ''user''
      | Some x \<Rightarrow> if x \<in> set [''user'', ''admin''] then x else ''user'')"

definition register :: "env \<Rightarrow> db \<Rightarrow> register_body \<Rightarrow> auth_data response \<times> db" where
  "register e d b =
     (case findOneByEmail (users d) (rb_email b) of
        Some existingUser \<Rightarrow> (fail 400 ''User with this email already exists'', d)
      | None \<Rightarrow>
          (case validate_user e (rb_name b) (rb_email b) (rb_password b) of
             x # xs \<Rightarrow> (validation_failed (x # xs), d)
           | [] \<Rightarrow>
               (case findById (users d) (new_id e) of
                  Some clash \<Rightarrow> (fail 400 ''_id already exists'', d)
                | None \<Rightarrow>
                    (let u = \<lparr>u_id = new_id e, u_name = rb_name b, u_email = rb_email b,
                              u_password = bcrypt_hash e (rb_password b),
                              u_role = validRole (rb_role b), u_refreshToken = None,
                              u_passwordChangedAt = None\<rparr>
                     in sendTokenResponse e (d\<lparr>users := users d @ [u]\<rparr>) u 201
                          ''Registration successful''))))"

definition login :: "env \<Rightarrow> db \<Rightarrow> string \<Rightarrow> string \<Rightarrow> auth_data response \<times> db" where
  "login e d email password =
     (case findOneByEmail (users d) email of
        None \<Rightarrow> (fail 401 ''Invalid credentials'', d)
      | Some u \<Rightarrow>
          if \<not> bcrypt_compare e password (u_password u)
          then (fail 401 ''Invalid credentials'', d)
          else sendTokenResponse e d u 200 ''Login successful'')"

text \<open>
  \<^verbatim>\<open>refreshToken\<close>. The handler touches the store twice, at its two \<^verbatim>\<open>await\<close>s:
  \<open>refresh_read\<close> is everything up to the comparison with the stored token (the read
  \<^verbatim>\<open>User.findById\<close>), \<open>refresh_write\<close> is the signing of the new pair from the loaded
  document and \<^verbatim>\<open>user.save\<close>. A falsy token (absent or empty) is answered first.
\<close>

definition refresh_read :: "env \<Rightarrow> db \<Rightarrow> string option \<Rightarrow> (string \<times> string) response + user" where
  "refresh_read e d tok =
     (case tok of
        None \<Rightarrow> Inl (fail 400 ''Refresh token is required'')
      | Some t \<Rightarrow>
          if t = [] then Inl (fail 400 ''Refresh token is required'')
          else
            (case jwt_verify e t of
               Inl err \<Rightarrow> Inl (fail 401 ''Invalid or expired refresh token'')
             | Inr i \<Rightarrow>
                 (case findById (users d) i of
                    None \<Rightarrow> Inl (fail 401 ''Invalid refresh token'')
                  | Some u \<Rightarrow>
                      if u_refreshToken u \<noteq> Some t
                      then Inl (fail 401 ''Invalid refresh token'')
                      else Inr u)))"

definition refresh_write :: "env \<Rightarrow> db \<Rightarrow> user \<Rightarrow> (string \<times> string) response \<times> db" where
  "refresh_write e d u =
     (let newAccessToken = generateAccessToken e u;
          newRefreshToken = generateRefreshToken e u;
          d' = d\<lparr>users := updateById (u_id u)
                    (\<lambda>x. x\<lparr>u_refreshToken := Some newRefreshToken\<rparr>) (users d)\<rparr>
      in (ok_data 200 (Some ''Token refreshed successfully'')
            (newAccessToken, newRefreshToken), d'))"

definition refreshToken :: "env \<Rightarrow> db \<Rightarrow> string option \<Rightarrow> (string \<times> string) response \<times> db" where
  "refreshToken e d tok =
     (case refresh_read e d tok of
        Inl r \<Rightarrow> (r, d)
      | Inr u \<Rightarrow> refresh_write e d u)"

text \<open>
  The spec's \<^verbatim>\<open>InvalidOrExpiredToken\<close>: the two 401 answers of the refresh endpoint.
\<close>

definition InvalidOrExpiredToken :: "'a response \<Rightarrow> bool" where
  "InvalidOrExpiredToken r \<longleftrightarrow>
     status r = 401 \<and> \<not> success r \<and> data r = None \<and>
     (message r = Some ''Invalid refresh token'' \<or>
      message r = Some ''Invalid or expired refresh token'')"

section \<open>Task model\<close>

text \<open>
  Schema validation of a task document, the failing paths in schema order. The
  \<^verbatim>\<open>dueDate\<close> validator only looks at new documents. The owner is always the id of
  the authenticated caller, so its \<^verbatim>\<open>required\<close> rule cannot fail.
\<close>

definition validate_task :: "env \<Rightarrow> bool \<Rightarrow> task \<Rightarrow> (string \<times> string) list" where
  "validate_task e isNew t =
     (if t_title t = [] then [(''title'', ''Task title is required'')]
      else if length (t_title t) < 3 then [(''title'', ''Title must be at least 3 characters'')]
      else if 100 < length (t_title t)
        then [(''title'', ''Title cannot exceed 100 characters'')]
      else []) @
     (case t_description t of
        None \<Rightarrow> []
      | Some x \<Rightarrow> if 1000 < length x
          then [(''description'', ''Description cannot exceed 1000 characters'')] else []) @
     (if t_status t \<in> set [''pending'', ''in-progress'', ''completed''] then []
      else [(''status'', ''Status must be pending, in-progress, or completed'')]) @
     (if t_priority t \<in> set [''low'', ''medium'', ''high''] then []
      else [(''priority'', ''Priority must be low, medium, or high'')]) @
     (case t_dueDate t of
        None \<Rightarrow> []
      | Some v \<Rightarrow> if isNew \<and> v < today e
          then [(''dueDate'', ''Due date must be today or in the future'')] else [])"

text \<open>
  The \<^verbatim>\<open>pre('save')\<close> hook of the task schema. \<open>modified\<close> is
  \<^verbatim>\<open>this.isModified('status')\<close>.
\<close>

definition pre_save :: "env \<Rightarrow> bool \<Rightarrow> task \<Rightarrow> task" where
  "pre_save e modified t =
     (let t1 = (if modified \<and> t_status t = ''completed''
                then t\<lparr>t_completedAt := Some (now e)\<rparr> else t)
      in if modified \<and> t_status t1 \<noteq> ''completed''
         then t1\<lparr>t_completedAt := None\<rparr> else t1)"

text \<open>\<^verbatim>\<open>deleteOne\<close>: the first document the filter matches is removed.\<close>

fun deleteFirst :: "('a \<Rightarrow> bool) \<Rightarrow> 'a list \<Rightarrow> 'a list" where
  "deleteFirst P [] = []"
| "deleteFirst P (x # xs) = (if P x then xs else x # deleteFirst P xs)"

definition replaceTask :: "task \<Rightarrow> task list \<Rightarrow> task list" where
  "replaceTask t' ts = map (\<lambda>x. if t_id x = t_id t' then t' else x) ts"

section \<open>Task controller\<close>

text \<open>
  The caller \<^verbatim>\<open>req.user\<close> is the account document the authentication middleware
  attached to the request. Every handler maps the store to a response and a store.
\<close>

definition getTask :: "db \<Rightarrow> user \<Rightarrow> oid \<Rightarrow> task response \<times> db" where
  "getTask d caller i =
     (case find (\<lambda>t. t_id t = i \<and> t_user t = u_id caller) (tasks d) of
        None \<Rightarrow> (fail 404 ''Task not found'', d)
      | Some t \<Rightarrow> (ok_data 200 None t, d))"

record task_body =
  tb_title :: "string option"
  tb_description :: "string option"
  tb_status :: "string option"
  tb_priority :: "string option"
  tb_dueDate :: "date option"
  tb_tags :: "string list option"

text \<open>
  \<^verbatim>\<open>Task.create\<close>: the setters of title, description and tags, defaults for the
  undefined fields, validation, the save hook (the status counts as modified when the
  body gave one), insertion.
\<close>

definition new_task :: "env \<Rightarrow> user \<Rightarrow> task_body \<Rightarrow> task" where
  "new_task e caller b =
     \<lparr>t_id = new_id e,
      t_title = (case tb_title b of None \<Rightarrow> [] | Some x \<Rightarrow> trim x),
      t_description = map_option trim (tb_description b),
      t_status = (case tb_status b of None \<Rightarrow> ''pending'' | Some x \<Rightarrow> x),
      t_priority = (case tb_priority b of None \<Rightarrow> ''medium'' | Some x \<Rightarrow> x),
      t_dueDate = tb_dueDate b,
      t_tags = (case tb_tags b of None \<Rightarrow> [] | Some x \<Rightarrow> map (\<lambda>g. toLowerCase (trim g)) x),
      t_user = u_id caller, t_completedAt = None,
      t_createdAt = now e, t_updatedAt = now e\<rparr>"

definition createTask :: "env \<Rightarrow> db \<Rightarrow> user \<Rightarrow> task_body \<Rightarrow> task response \<times> db" where
  "createTask e d caller b =
     (case validate_task e True (new_task e caller b) of
        x # xs \<Rightarrow> (validation_failed (x # xs), d)
      | [] \<Rightarrow>
          (case find (\<lambda>x. t_id x = new_id e) (tasks d) of
             Some clash \<Rightarrow> (fail 400 ''_id already exists'', d)
           | None \<Rightarrow>
               (let t = pre_save e (tb_status b \<noteq> None) (new_task e caller b)
                in (ok_data 201 (Some ''Task created successfully'') t,
                    d\<lparr>tasks := tasks d @ [t]\<rparr>))))"

text \<open>
  \<^verbatim>\<open>updateTask\<close>. The filter carries the owner only for a caller who is not an admin. A
  field is assigned when the body's value, as given, is truthy (title, status, priority,
  tags) or not undefined (description, dueDate); the assignment runs the setter of the
  path, so a title of blanks is stored empty and fails validation. The status counts as
  modified when the assigned value differs from the loaded one.
\<close>

definition updateTask_query :: "user \<Rightarrow> oid \<Rightarrow> task \<Rightarrow> bool" where
  "updateTask_query caller i =
     (if u_role caller \<noteq> ''admin''
      then (\<lambda>t. t_id t = i \<and> t_user t = u_id caller)
      else (\<lambda>t. t_id t = i))"

definition assign_fields :: "task_body \<Rightarrow> task \<Rightarrow> task" where
  "assign_fields b t =
     (let t1 = (case tb_title b of Some x \<Rightarrow> if x \<noteq> [] then t\<lparr>t_title := trim x\<rparr> else t
                | None \<Rightarrow> t);
          t2 = (case tb_description b of Some x \<Rightarrow> t1\<lparr>t_description := Some (trim x)\<rparr>
                | None \<Rightarrow> t1);
          t3 = (case tb_status b of Some x \<Rightarrow> if x \<noteq> [] then t2\<lparr>t_status := x\<rparr> else t2
                | None \<Rightarrow> t2);
          t4 = (case tb_priority b of Some x \<Rightarrow> if x \<noteq> [] then t3\<lparr>t_priority := x\<rparr> else t3
                | None \<Rightarrow> t3);
          t5 = (case tb_dueDate b of Some x \<Rightarrow> t4\<lparr>t_dueDate := Some x\<rparr> | None \<Rightarrow> t4)
      in (case tb_tags b of Some x \<Rightarrow> t5\<lparr>t_tags := map (\<lambda>g. toLowerCase (trim g)) x\<rparr>
          | None \<Rightarrow> t5))"

text \<open>
  \<^verbatim>\<open>task.save()\<close> on a loaded document \<open>t\<close> changed in memory to \<open>t1\<close>: validation, the
  hook, and the write of the changed document with a new \<^verbatim>\<open>updatedAt\<close>; nothing is
  written when nothing changed.
\<close>

definition save_task :: "env \<Rightarrow> task \<Rightarrow> task \<Rightarrow> (string \<times> string) list + task" where
  "save_task e t t1 =
     (case validate_task e False t1 of
        x # xs \<Rightarrow> Inl (x # xs)
      | [] \<Rightarrow>
          (let t2 = pre_save e (t_status t1 \<noteq> t_status t) t1
           in Inr (if t2 = t then t else t2\<lparr>t_updatedAt := now e\<rparr>)))"

definition updateTask :: "env \<Rightarrow> db \<Rightarrow> user \<Rightarrow> oid \<Rightarrow> task_body \<Rightarrow> task response \<times> db" where
  "updateTask e d caller i b =
     (case find (updateTask_query caller i) (tasks d) of
        None \<Rightarrow> (fail 404 ''Task not found'', d)
      | Some t \<Rightarrow>
          (case save_task e t (assign_fields b t) of
             Inl es \<Rightarrow> (validation_failed es, d)
           | Inr t' \<Rightarrow>
               (ok_data 200 (Some ''Task updated successfully'') t',
                d\<lparr>tasks := replaceTask t' (tasks d)\<rparr>)))"

definition deleteTask :: "db \<Rightarrow> user \<Rightarrow> oid \<Rightarrow> task response \<times> db" where
  "deleteTask d caller i =
     (case find (\<lambda>t. t_id t = i \<and> t_user t = u_id caller) (tasks d) of
        None \<Rightarrow> (fail 404 ''Task not found'', d)
      | Some t \<Rightarrow>
          (ok_msg 200 ''Task deleted successfully'',
           d\<lparr>tasks := deleteFirst (\<lambda>t. t_id t = i \<and> t_user t = u_id caller) (tasks d)\<rparr>))"

text \<open>Decimal digits of a count, for the messages that interpolate one.\<close>

definition digit_char :: "nat \<Rightarrow> char" where
  "digit_char n = ''0123456789'' ! n"

fun string_of_nat :: "nat \<Rightarrow> string" where
  "string_of_nat n =
     (if n < 10 then [digit_char n]
      else string_of_nat (n div 10) @ [digit_char (n mod 10)])"

declare string_of_nat.simps [simp del]

text \<open>
  \<^verbatim>\<open>bulkUpdateStatus\<close>: one \<^verbatim>\<open>updateMany\<close> over the caller's tasks among the given ids. It
  runs no save hook; the update document itself sets or unsets \<^verbatim>\<open>completedAt\<close>, and
  the schema's timestamps add \<^verbatim>\<open>updatedAt\<close>. \<^verbatim>\<open>modifiedCount\<close> counts the matched
  documents the update changed.
\<close>

definition bulk_update :: "env \<Rightarrow> string \<Rightarrow> task \<Rightarrow> task" where
  "bulk_update e s t =
     t\<lparr>t_status := s,
       t_completedAt := (if s = ''completed'' then Some (now e) else None),
       t_updatedAt := now e\<rparr>"

definition bulkUpdateStatus ::
  "env \<Rightarrow> db \<Rightarrow> user \<Rightarrow> oid list option \<Rightarrow> string option \<Rightarrow> task response \<times> db" where
  "bulkUpdateStatus e d caller taskIds st =
     (case taskIds of
        None \<Rightarrow> (fail 400 ''Task IDs array is required'', d)
      | Some ids \<Rightarrow>
          if ids = [] then (fail 400 ''Task IDs array is required'', d)
          else
            (case st of
               None \<Rightarrow> (fail 400 ''Invalid status'', d)
             | Some s \<Rightarrow>
                 if s \<notin> set [''pending'', ''in-progress'', ''completed'']
                 then (fail 400 ''Invalid status'', d)
                 else
                   (let matches = (\<lambda>t. t_id t \<in> set ids \<and> t_user t = u_id caller);
                        modifiedCount =
                          length (filter (\<lambda>t. matches t \<and> bulk_update e s t \<noteq> t) (tasks d))
                    in (ok_msg 200 (string_of_nat modifiedCount @ '' tasks updated successfully''),
                        d\<lparr>tasks := map (\<lambda>t. if matches t then bulk_update e s t else t)
                                     (tasks d)\<rparr>))))"

text \<open>The invariant of the task model: a completion time exactly on completed tasks.\<close>

definition completion_inv :: "task \<Rightarrow> bool" where
  "completion_inv t \<longleftrightarrow> (t_completedAt t \<noteq> None \<longleftrightarrow> t_status t = ''completed'')"

section \<open>Listing tasks\<close>

text \<open>
  The numbers of the handler are doubles. Those that can arise from parsing a digit
  string and from the handler's subtraction and multiplication are \<^verbatim>\<open>NaN\<close>, the two
  infinities (\<open>Infty True\<close> is the negative one) and the integers that are doubles. Zero
  stands for both zeros: the store and the response do not tell them apart.
\<close>

datatype jsnum = NaN | Fin int | Infty bool

fun bitlen :: "nat \<Rightarrow> nat" where
  "bitlen n = (if n = 0 then 0 else Suc (bitlen (n div 2)))"

declare bitlen.simps [simp del]

text \<open>
  The double nearest to a natural number: 53 significant bits, a tie going to the
  even neighbour.
\<close>

definition round_nat :: "nat \<Rightarrow> nat" where
  "round_nat n =
     (if n < 2 ^ 53 then n
      else
        (let e = bitlen n - 53;
             q = n div 2 ^ e;
             r = n mod 2 ^ e
         in if 2 ^ e < 2 * r \<or> (2 * r = 2 ^ e \<and> odd q) then (q + 1) * 2 ^ e else q * 2 ^ e))"

definition to_double :: "int \<Rightarrow> jsnum" where
  "to_double k =
     (let m = round_nat (nat \<bar>k\<bar>)
      in if 2 ^ 1024 \<le> m then Infty (k < 0)
         else Fin (if k < 0 then - int m else int m))"



text \<open>
  JavaScript's \<^verbatim>\<open>parseInt\<close> with no radix, on ASCII input: leading white space, an
  optional sign, an optional \<^verbatim>\<open>0x\<close> prefix, then the longest run of digits, whose value
  is rounded to a double; no digit gives \<^verbatim>\<open>NaN\<close>.
\<close>

definition digit_of :: "nat \<Rightarrow> char \<Rightarrow> nat option" where
  "digit_of radix c =
     (case pos c ''0123456789abcdef'' of
        Some v \<Rightarrow> if v < radix then Some v else None
      | None \<Rightarrow>
          (case pos c ''ABCDEF'' of
             Some v \<Rightarrow> if 10 + v < radix then Some (10 + v) else None
           | None \<Rightarrow> None))"

definition parseInt :: "string \<Rightarrow> jsnum" where
  "parseInt s =
     (let s1 = dropWhile is_ws s;
          neg = (case s1 of c # r \<Rightarrow> c = CHR ''-'' | [] \<Rightarrow> False);
          s2 = (case s1 of c # r \<Rightarrow> if c = CHR ''-'' \<or> c = CHR ''+'' then r else s1 | [] \<Rightarrow> []);
          hex = (case s2 of c0 # cx # r \<Rightarrow> c0 = CHR ''0'' \<and> (cx = CHR ''x'' \<or> cx = CHR ''X'')
                 | _ \<Rightarrow> False);
          radix = (if hex then 16 else 10);
          s3 = (if hex then drop 2 s2 else s2);
          ds = takeWhile (\<lambda>c. digit_of radix c \<noteq> None) s3;
          n = foldl (\<lambda>a c. a * radix + the (digit_of radix c)) 0 ds
      in if ds = [] then NaN else to_double (if neg then - int n else int n))"

















section \<open>User controller\<close>

record user_body =
  ub_name :: "string option"
  ub_email :: "string option"
  ub_role :: "string option"

text \<open>
  What \<^verbatim>\<open>select('-refreshToken')\<close> returns of an account: the password is never
  selected either.
\<close>

record user_view =
  uv_id :: oid
  uv_name :: string
  uv_email :: string
  uv_role :: string
  uv_passwordChangedAt :: "date option"

definition view :: "user \<Rightarrow> user_view" where
  "view u = \<lparr>uv_id = u_id u, uv_name = u_name u, uv_email = u_email u, uv_role = u_role u,
     uv_passwordChangedAt = u_passwordChangedAt u\<rparr>"

text \<open>\<^verbatim>\<open>updateFields\<close>: only the truthy fields of the body are set.\<close>

definition update_fields :: "user_body \<Rightarrow> user \<Rightarrow> user" where
  "update_fields b u =
     (let u1 = (if truthy (ub_name b) then u\<lparr>u_name := the (ub_name b)\<rparr> else u);
          u2 = (if truthy (ub_email b) then u1\<lparr>u_email := the (ub_email b)\<rparr> else u1)
      in if truthy (ub_role b) then u2\<lparr>u_role := the (ub_role b)\<rparr> else u2)"

text \<open>\<^verbatim>\<open>runValidators\<close>: the schema rules of the paths the update sets.\<close>

definition validate_update :: "env \<Rightarrow> user_body \<Rightarrow> (string \<times> string) list" where
  "validate_update e b =
     (if truthy (ub_name b) \<and> length (the (ub_name b)) < 2
        then [(''name'', ''Name must be at least 2 characters'')]
      else if truthy (ub_name b) \<and> 50 < length (the (ub_name b))
        then [(''name'', ''Name cannot exceed 50 characters'')]
      else []) @
     (if truthy (ub_email b) \<and> \<not> valid_email e (the (ub_email b))
        then [(''email'', ''Please provide a valid email'')]
      else []) @
     (if truthy (ub_role b) \<and> the (ub_role b) \<notin> set [''user'', ''admin'']
        then [(''role'', ''`'' @ the (ub_role b) @ ''` is not a valid enum value for path `role`.'')]
      else [])"

text \<open>
  \<^verbatim>\<open>updateUser\<close>. \<open>raw\<close> is \<^verbatim>\<open>req.params.id\<close> as the route gives it. The lookups cast it;
  the guard on the caller's own role compares \<^verbatim>\<open>req.user._id.toString()\<close> with the
  string itself.
\<close>

definition updateUser :: "env \<Rightarrow> db \<Rightarrow> user \<Rightarrow> string \<Rightarrow> user_body \<Rightarrow> user_view response \<times> db" where
  "updateUser e d caller raw b =
     (case castObjectId raw of
        None \<Rightarrow> (fail 404 ''Resource not found'', d)
      | Some i \<Rightarrow>
          (case findById (users d) i of
             None \<Rightarrow> (fail 404 ''User not found'', d)
           | Some u \<Rightarrow>
               if u_id caller = raw \<and> truthy (ub_role b) \<and> ub_role b \<noteq> Some (u_role caller)
               then (fail 400 ''You cannot change your own role'', d)
               else if truthy (ub_email b) \<and> ub_email b \<noteq> Some (u_email u) \<and>
                       findOneByEmail (users d) (the (ub_email b)) \<noteq> None
               then (fail 400 ''Email is already in use'', d)
               else
                 (case validate_update e b of
                    x # xs \<Rightarrow> (validation_failed (x # xs), d)
                  | [] \<Rightarrow>
                      (ok_data 200 (Some ''User updated successfully'')
                         (view (update_fields b u)),
                       d\<lparr>users := updateById i (update_fields b) (users d)\<rparr>))))"

text \<open>
  \<^verbatim>\<open>deleteUser\<close>: \<^verbatim>\<open>Task.deleteMany({user: id})\<close>, then \<^verbatim>\<open>User.findByIdAndDelete(id)\<close>, both
  on the cast id; the guard against deleting oneself compares the uncast string.
\<close>

definition deleteUser :: "db \<Rightarrow> user \<Rightarrow> string \<Rightarrow> user_view response \<times> db" where
  "deleteUser d caller raw =
     (case castObjectId raw of
        None \<Rightarrow> (fail 404 ''Resource not found'', d)
      | Some i \<Rightarrow>
          (case findById (users d) i of
             None \<Rightarrow> (fail 404 ''User not found'', d)
           | Some u \<Rightarrow>
               if u_id caller = raw
               then (fail 400 ''You cannot delete your own account'', d)
               else (ok_msg 200 ''User and associated tasks deleted successfully'',
                     d\<lparr>tasks := filter (\<lambda>t. t_user t \<noteq> i) (tasks d),
                       users := deleteFirst (\<lambda>x. u_id x = i) (users d)\<rparr>)))"

section \<open>Two refresh requests in flight\<close>

text \<open>
  Handlers of different requests interleave at their \<^verbatim>\<open>await\<close>s. A refresh request is
  waiting with its token, or has loaded and compared the account and is about to save,
  or is answered; one step performs the next store operation of a request. A schedule
  says which of two requests moves next (\<open>False\<close> the first, \<open>True\<close> the second).
\<close>

datatype refresh_req =
    Waiting "string option"
  | Loaded user
  | Done "(string \<times> string) response"

fun refresh_step :: "env \<Rightarrow> db \<Rightarrow> refresh_req \<Rightarrow> db \<times> refresh_req" where
  "refresh_step e d (Waiting tok) =
     (case refresh_read e d tok of Inl r \<Rightarrow> (d, Done r) | Inr u \<Rightarrow> (d, Loaded u))"
| "refresh_step e d (Loaded u) = (case refresh_write e d u of (r, d') \<Rightarrow> (d', Done r))"
| "refresh_step e d (Done r) = (d, Done r)"

fun run :: "env \<Rightarrow> bool list \<Rightarrow> db \<times> refresh_req \<times> refresh_req \<Rightarrow> db \<times> refresh_req \<times> refresh_req" where
  "run e [] st = st"
| "run e (w # ws) (d, a, b) =
     (if w then (case refresh_step e d b of (d', b') \<Rightarrow> run e ws (d', a, b'))
      else (case refresh_step e d a of (d', a') \<Rightarrow> run e ws (d', a', b)))"

section \<open>Example store\<close>

text \<open>
  A small concrete world on which the theorems below are instantiated: an administrator
  and a plain user, a toy hash, and tokens that are plain strings made of a short tag
  for the account and the second of issue. The clock stands in second 1; the tokens
  in the store were issued in second 0.
\<close>

definition ex_tag :: "oid \<Rightarrow> string" where
  "ex_tag i =
     (if i = ''aaaaaaaaaaaaaaaaaaaaaaa1'' then ''a1''
      else if i = ''bbbbbbbbbbbbbbbbbbbbbbb2'' then ''b2'' else ''c3'')"

definition ex_admin :: user where
  "ex_admin = \<lparr>u_id = ''aaaaaaaaaaaaaaaaaaaaaaa1'', u_name = ''Root'', u_email = ''root@x.io'',
     u_password = ''#Admin123'', u_role = ''admin'', u_refreshToken = Some ''R-a1-0'',
     u_passwordChangedAt = None\<rparr>"

definition ex_ann :: user where
  "ex_ann = \<lparr>u_id = ''bbbbbbbbbbbbbbbbbbbbbbb2'', u_name = ''Ann'', u_email = ''ann@x.io'',
     u_password = ''#User123'', u_role = ''user'', u_refreshToken = Some ''R-b2-0'',
     u_passwordChangedAt = None\<rparr>"

definition ex_env :: env where
  "ex_env = \<lparr>now = 1000, today = 0, new_id = ''ccccccccccccccccccccccc3'',
     bcrypt_hash = (\<lambda>p. ''#'' @ p),
     bcrypt_compare = (\<lambda>p h. h = ''#'' @ p),
     jwt_verify = (\<lambda>t. if t = ''R-a1-0'' \<or> t = ''R-a1-1'' then Inr ''aaaaaaaaaaaaaaaaaaaaaaa1''
                         else if t = ''R-b2-0'' \<or> t = ''R-b2-1'' then Inr ''bbbbbbbbbbbbbbbbbbbbbbb2''
                         else if t = ''R-old'' then Inl TokenExpiredError
                         else Inl JsonWebTokenError),
     jwt_sign_access = (\<lambda>i em r s. ''A-'' @ ex_tag i),
     jwt_sign_refresh = (\<lambda>i s. ''R-'' @ ex_tag i @ ''-'' @ string_of_nat s),
     valid_email = (\<lambda>s. CHR ''@'' \<in> set s),
     regex_i = (\<lambda>p s. p = s),
     sort_docs = (\<lambda>field direction ts. if direction < 0 then rev ts else ts),
     store_error_message = ''skip must be non-negative''\<rparr>"

definition ex_task1 :: task where
  "ex_task1 = \<lparr>t_id = ''ddddddddddddddddddddddd1'', t_title = ''Write report'', t_description = None,
     t_status = ''pending'', t_priority = ''medium'', t_dueDate = None, t_tags = [],
     t_user = ''bbbbbbbbbbbbbbbbbbbbbbb2'', t_completedAt = None, t_createdAt = 10, t_updatedAt = 10\<rparr>"

definition ex_task2 :: task where
  "ex_task2 = \<lparr>t_id = ''ddddddddddddddddddddddd2'', t_title = ''Rotate keys'', t_description = Some ''monthly'',
     t_status = ''completed'', t_priority = ''high'', t_dueDate = None, t_tags = [''ops''],
     t_user = ''aaaaaaaaaaaaaaaaaaaaaaa1'', t_completedAt = Some 20, t_createdAt = 15, t_updatedAt = 20\<rparr>"

definition ex_db :: db where
  "ex_db = \<lparr>users = [ex_admin, ex_ann], tasks = [ex_task1, ex_task2]\<rparr>"

definition ex_done :: task_body where
  "ex_done = \<lparr>tb_title = None, tb_description = None, tb_status = Some ''completed'',
     tb_priority = None, tb_dueDate = None, tb_tags = None\<rparr>"

definition ex_reopen :: task_body where
  "ex_reopen = \<lparr>tb_title = None, tb_description = None, tb_status = Some ''in-progress'',
     tb_priority = None, tb_dueDate = None, tb_tags = None\<rparr>"

definition ex_new :: task_body where
  "ex_new = \<lparr>tb_title = Some ''Ship it'', tb_description = None,
     tb_status = Some ''completed'', tb_priority = None, tb_dueDate = Some 5, tb_tags = None\<rparr>"

definition ex_task3 :: task where
  "ex_task3 = \<lparr>t_id = ''ccccccccccccccccccccccc3'', t_title = ''Ship it'', t_description = None,
     t_status = ''completed'', t_priority = ''medium'', t_dueDate = Some 5, t_tags = [],
     t_user = ''bbbbbbbbbbbbbbbbbbbbbbb2'', t_completedAt = Some 1000, t_createdAt = 1000, t_updatedAt = 1000\<rparr>"




definition ex_register :: register_body where
  "ex_register = \<lparr>rb_name = ''Cy'', rb_email = ''cy@x.io'', rb_password = ''Secret1'',
     rb_role = Some ''root''\<rparr>"


lemmas ex_token_defs =
  generateAccessToken_def generateRefreshToken_def ex_tag_def string_of_nat.simps digit_char_def

section \<open>Login\<close>

text \<open>
  C5. A login whose email matches no account and a login with an existing email and a
  password that bcrypt rejects get the same response, status 401 with the message
  \<^verbatim>\<open>Invalid credentials\<close> and nothing else, and neither changes the store.
\<close>

theorem login_failures_indistinguishable:
  assumes "findOneByEmail (users d) email1 = None"
    and "findOneByEmail (users d) email2 = Some u"
    and "\<not> bcrypt_compare e pw2 (u_password u)"
  shows "login e d email1 pw1 = (fail 401 ''Invalid credentials'', d)
       \<and> login e d email2 pw2 = login e d email1 pw1"
  using assms by (simp add: login_def)

theorem login_failures_indistinguishable_witness:
  "findOneByEmail (users ex_db) ''nobody@x.io'' = None
   \<and> findOneByEmail (users ex_db) ''ann@x.io'' = Some ex_ann
   \<and> \<not> bcrypt_compare ex_env ''guess1'' (u_password ex_ann)
   \<and> login ex_env ex_db ''nobody@x.io'' ''User123'' = (fail 401 ''Invalid credentials'', ex_db)
   \<and> login ex_env ex_db ''ann@x.io'' ''guess1'' = login ex_env ex_db ''nobody@x.io'' ''User123''"
  using login_failures_indistinguishable
    [of ex_db "''nobody@x.io''" "''ann@x.io''" ex_ann ex_env "''guess1''" "''User123''"]
  by (simp add: findOneByEmail_def ex_db_def ex_admin_def ex_ann_def ex_env_def)

section \<open>Refresh-token rotation\<close>

lemma findById_id: "findById us i = Some u \<Longrightarrow> u_id u = i"
  unfolding findById_def by (induction us) (auto split: if_splits)

lemma findById_updateById:
  "findById us i = Some u \<Longrightarrow> u_id (f u) = i \<Longrightarrow> findById (updateById i f us) i = Some (f u)"
  unfolding findById_def updateById_def by (induction us) (auto split: if_splits)

lemma refresh_read_Inr:
  "refresh_read e d tok = Inr u \<Longrightarrow>
     \<exists>t. tok = Some t \<and> t \<noteq> [] \<and> jwt_verify e t = Inr (u_id u) \<and>
         findById (users d) (u_id u) = Some u \<and> u_refreshToken u = Some t"
  by (auto simp: refresh_read_def dest: findById_id
      split: option.splits if_splits sum.splits)

lemma refresh_read_mismatch:
  assumes "t \<noteq> []"
    and "\<And>i u. jwt_verify e t = Inr i \<Longrightarrow> findById (users d) i = Some u \<Longrightarrow>
            u_refreshToken u \<noteq> Some t"
  shows "\<exists>r. refresh_read e d (Some t) = Inl r \<and> InvalidOrExpiredToken r"
  using assms
  by (auto simp: refresh_read_def InvalidOrExpiredToken_def fail_def
      split: option.splits sum.splits)

lemma refreshToken_mismatch:
  assumes "t \<noteq> []"
    and "\<And>i u. jwt_verify e t = Inr i \<Longrightarrow> findById (users d) i = Some u \<Longrightarrow>
            u_refreshToken u \<noteq> Some t"
  shows "InvalidOrExpiredToken (fst (refreshToken e d (Some t))) \<and>
         snd (refreshToken e d (Some t)) = d"
proof -
  obtain r where "refresh_read e d (Some t) = Inl r" and "InvalidOrExpiredToken r"
    using refresh_read_mismatch [of t e d] assms by blast
  then show ?thesis by (simp add: refreshToken_def)
qed

lemma refreshToken_success:
  assumes "refreshToken e d (Some R) = (res, d')" and "data res = Some (a, N)"
  shows "\<exists>u. jwt_verify e R = Inr (u_id u) \<and> findById (users d) (u_id u) = Some u \<and>
             u_refreshToken u = Some R \<and> R \<noteq> [] \<and> N = generateRefreshToken e u \<and>
             findById (users d') (u_id u) = Some (u\<lparr>u_refreshToken := Some N\<rparr>)"
proof (cases "refresh_read e d (Some R)")
  case (Inl r)
  with assms show ?thesis
    by (auto simp: refreshToken_def refresh_read_def fail_def
        split: option.splits sum.splits if_splits)
next
  case (Inr u)
  from refresh_read_Inr [OF Inr]
  have u: "R \<noteq> []" "jwt_verify e R = Inr (u_id u)" "findById (users d) (u_id u) = Some u"
    "u_refreshToken u = Some R"
    by auto
  from assms Inr have N: "N = generateRefreshToken e u"
    and d': "users d' = updateById (u_id u) (\<lambda>x. x\<lparr>u_refreshToken := Some N\<rparr>) (users d)"
    by (auto simp: refreshToken_def refresh_write_def ok_data_def Let_def)
  have "findById (users d') (u_id u) = Some (u\<lparr>u_refreshToken := Some N\<rparr>)"
    unfolding d' by (rule findById_updateById [OF u(3)]) simp
  with u N show ?thesis by blast
qed

text \<open>
  C1, as claimed, fails. The plain user logs in and refreshes within one second. The
  login stores the refresh token R of that second; the refresh call presenting R
  succeeds and signs, for the same account in the same second, R again, so the stored
  token stays R; the next call presenting R succeeds as well.
\<close>

theorem refreshToken_same_second_counterexample:
  "snd (login ex_env ex_db ''ann@x.io'' ''User123'')
     = ex_db\<lparr>users := [ex_admin, ex_ann\<lparr>u_refreshToken := Some ''R-b2-1''\<rparr>]\<rparr>
   \<and> refreshToken ex_env
         (ex_db\<lparr>users := [ex_admin, ex_ann\<lparr>u_refreshToken := Some ''R-b2-1''\<rparr>]\<rparr>)
         (Some ''R-b2-1'')
     = (ok_data 200 (Some ''Token refreshed successfully'') (''A-b2'', ''R-b2-1''),
        ex_db\<lparr>users := [ex_admin, ex_ann\<lparr>u_refreshToken := Some ''R-b2-1''\<rparr>]\<rparr>)
   \<and> fst (refreshToken ex_env
         (snd (refreshToken ex_env
            (ex_db\<lparr>users := [ex_admin, ex_ann\<lparr>u_refreshToken := Some ''R-b2-1''\<rparr>]\<rparr>)
            (Some ''R-b2-1'')))
         (Some ''R-b2-1''))
     = ok_data 200 (Some ''Token refreshed successfully'') (''A-b2'', ''R-b2-1'')"
  by (simp add: login_def sendTokenResponse_def findOneByEmail_def refreshToken_def
      refresh_read_def refresh_write_def findById_def updateById_def Let_def
      ex_db_def ex_admin_def ex_ann_def ex_env_def ex_token_defs)

text \<open>
  C1, amended. First part: when a refresh call presenting R succeeds and the token it
  stores is not R itself, the next refresh call presenting R is answered 401 and leaves
  the store as it is; the second call may run at a later time (\<open>e'\<close>: other expiry, other fresh
  tokens), but a token still decodes to the payload it was signed with. Second part:
  in every store, a non-empty token that differs from the refresh token stored on the
  account it resolves to (or resolves to no account, or does not verify) is answered
  401 and changes nothing; an absent or empty token is answered 400 before anything is
  looked up.
\<close>

theorem refreshToken_single_use:
  "(refreshToken e d (Some R) = (res, d') \<and> data res = Some (a, N) \<and> N \<noteq> R \<and>
      (isl (jwt_verify e' R) \<or> jwt_verify e' R = jwt_verify e R)
    \<longrightarrow> InvalidOrExpiredToken (fst (refreshToken e' d' (Some R))) \<and>
        snd (refreshToken e' d' (Some R)) = d')
   \<and> (t \<noteq> [] \<and>
      (\<forall>i u. jwt_verify e0 t = Inr i \<and> findById (users d0) i = Some u
             \<longrightarrow> u_refreshToken u \<noteq> Some t)
    \<longrightarrow> InvalidOrExpiredToken (fst (refreshToken e0 d0 (Some t))) \<and>
        snd (refreshToken e0 d0 (Some t)) = d0)
   \<and> refreshToken e0 d0 None = (fail 400 ''Refresh token is required'', d0)
   \<and> refreshToken e0 d0 (Some []) = (fail 400 ''Refresh token is required'', d0)"
proof (intro conjI impI)
  show "refreshToken e0 d0 None = (fail 400 ''Refresh token is required'', d0)"
    and "refreshToken e0 d0 (Some []) = (fail 400 ''Refresh token is required'', d0)"
    by (simp_all add: refreshToken_def refresh_read_def)
next
  assume h: "refreshToken e d (Some R) = (res, d') \<and> data res = Some (a, N) \<and> N \<noteq> R \<and>
      (isl (jwt_verify e' R) \<or> jwt_verify e' R = jwt_verify e R)"
  then obtain u where u: "jwt_verify e R = Inr (u_id u)" "R \<noteq> []"
    "findById (users d') (u_id u) = Some (u\<lparr>u_refreshToken := Some N\<rparr>)"
    using refreshToken_success [of e d R res d' a N] by blast
  have "InvalidOrExpiredToken (fst (refreshToken e' d' (Some R))) \<and>
        snd (refreshToken e' d' (Some R)) = d'"
  proof (rule refreshToken_mismatch [OF u(2)])
    fix i v
    assume "jwt_verify e' R = Inr i" "findById (users d') i = Some v"
    with h u show "u_refreshToken v \<noteq> Some R" by auto
  qed
  then show "InvalidOrExpiredToken (fst (refreshToken e' d' (Some R)))"
    and "snd (refreshToken e' d' (Some R)) = d'" by simp_all
next
  assume h: "t \<noteq> [] \<and>
      (\<forall>i u. jwt_verify e0 t = Inr i \<and> findById (users d0) i = Some u
             \<longrightarrow> u_refreshToken u \<noteq> Some t)"
  then have "InvalidOrExpiredToken (fst (refreshToken e0 d0 (Some t))) \<and>
        snd (refreshToken e0 d0 (Some t)) = d0"
    by (intro refreshToken_mismatch) blast+
  then show "InvalidOrExpiredToken (fst (refreshToken e0 d0 (Some t)))"
    and "snd (refreshToken e0 d0 (Some t)) = d0" by simp_all
qed


theorem refreshToken_single_use_witness:
  "refreshToken ex_env ex_db (Some ''R-b2-0'')
     = (ok_data 200 (Some ''Token refreshed successfully'') (''A-b2'', ''R-b2-1''),
        ex_db\<lparr>users := [ex_admin, ex_ann\<lparr>u_refreshToken := Some ''R-b2-1''\<rparr>]\<rparr>)
   \<and> InvalidOrExpiredToken
       (fst (refreshToken ex_env
          (ex_db\<lparr>users := [ex_admin, ex_ann\<lparr>u_refreshToken := Some ''R-b2-1''\<rparr>]\<rparr>)
          (Some ''R-b2-0'')))
   \<and> InvalidOrExpiredToken (fst (refreshToken ex_env ex_db (Some ''R-a1-1'')))
   \<and> snd (refreshToken ex_env ex_db (Some ''R-a1-1'')) = ex_db"
proof -
  have run: "refreshToken ex_env ex_db (Some ''R-b2-0'')
     = (ok_data 200 (Some ''Token refreshed successfully'') (''A-b2'', ''R-b2-1''),
        ex_db\<lparr>users := [ex_admin, ex_ann\<lparr>u_refreshToken := Some ''R-b2-1''\<rparr>]\<rparr>)"
    by (simp add: refreshToken_def refresh_read_def refresh_write_def findById_def
        updateById_def Let_def ex_db_def ex_admin_def ex_ann_def ex_env_def ex_token_defs)
  have stale: "\<forall>i u. jwt_verify ex_env ''R-a1-1'' = Inr i \<and> findById (users ex_db) i = Some u
      \<longrightarrow> u_refreshToken u \<noteq> Some ''R-a1-1''"
    by (simp add: findById_def ex_db_def ex_admin_def ex_ann_def ex_env_def)
  show ?thesis
    using refreshToken_single_use
      [of ex_env ex_db "''R-b2-0''"
          "ok_data 200 (Some ''Token refreshed successfully'') (''A-b2'', ''R-b2-1'')"
          "ex_db\<lparr>users := [ex_admin, ex_ann\<lparr>u_refreshToken := Some ''R-b2-1''\<rparr>]\<rparr>"
          "''A-b2''" "''R-b2-1''" ex_env "''R-a1-1''" ex_env ex_db]
      run stale
    by (simp add: ok_data_def)
qed

section \<open>Ownership of tasks\<close>

lemma find_None: "find P xs = None \<longleftrightarrow> (\<forall>x \<in> set xs. \<not> P x)"
  by (induction xs) auto


lemma unique_id:
  assumes "distinct (map t_id ts)" and "t \<in> set ts" and "x \<in> set ts" and "t_id x = t_id t"
  shows "x = t"
  using assms by (meson distinct_map inj_onD)

text \<open>
  C3. Task ids are unique in the store. A task held by another account is invisible to
  the caller: reading it and deleting it both answer 404 \<^verbatim>\<open>Task not found\<close>, the store
  is left as it was, and the answer is the one a store without any task of that id
  gives. The handlers do not look at the role, so this holds for every caller, the
  non-elevated ones in particular; no branch of either handler answers 403.
\<close>

theorem foreign_task_not_found:
  assumes "distinct (map t_id (tasks d))"
    and "t \<in> set (tasks d)"
    and "t_user t \<noteq> u_id caller"
    and "\<forall>x \<in> set (tasks d0). t_id x \<noteq> t_id t"
  shows "getTask d caller (t_id t) = (fail 404 ''Task not found'', d)
       \<and> deleteTask d caller (t_id t) = (fail 404 ''Task not found'', d)
       \<and> fst (getTask d0 caller (t_id t)) = fst (getTask d caller (t_id t))
       \<and> fst (deleteTask d0 caller (t_id t)) = fst (deleteTask d caller (t_id t))"
proof -
  have "\<forall>x \<in> set (tasks d). \<not> (t_id x = t_id t \<and> t_user x = u_id caller)"
    using assms(1-3) unique_id by blast
  then have here: "find (\<lambda>x. t_id x = t_id t \<and> t_user x = u_id caller) (tasks d) = None"
    by (simp add: find_None)
  have there: "find (\<lambda>x. t_id x = t_id t \<and> t_user x = u_id caller) (tasks d0) = None"
    using assms(4) by (simp add: find_None)
  show ?thesis
    by (simp add: getTask_def deleteTask_def here there)
qed

theorem foreign_task_not_found_witness:
  "distinct (map t_id (tasks ex_db)) \<and> ex_task2 \<in> set (tasks ex_db)
   \<and> t_user ex_task2 \<noteq> u_id ex_ann \<and> u_role ex_ann \<noteq> ''admin''
   \<and> getTask ex_db ex_ann ''ddddddddddddddddddddddd2'' = (fail 404 ''Task not found'', ex_db)
   \<and> deleteTask ex_db ex_ann ''ddddddddddddddddddddddd2'' = (fail 404 ''Task not found'', ex_db)
   \<and> fst (getTask (ex_db\<lparr>tasks := [ex_task1]\<rparr>) ex_ann ''ddddddddddddddddddddddd2'') = fst (getTask ex_db ex_ann ''ddddddddddddddddddddddd2'')"
  using foreign_task_not_found [of ex_db ex_task2 ex_ann "ex_db\<lparr>tasks := [ex_task1]\<rparr>"]
  by (simp add: ex_db_def ex_task1_def ex_task2_def ex_ann_def)






text \<open>
  The setters run before validation: an update whose title is three blanks is answered
  400, the title being required, and nothing is written.
\<close>

lemma update_blank_title:
  "updateTask ex_env ex_db ex_admin ''ddddddddddddddddddddddd1'' (ex_done\<lparr>tb_title := Some ''   ''\<rparr>)
     = (validation_failed [(''title'', ''Task title is required'')], ex_db)"
  by (simp add: updateTask_def updateTask_query_def assign_fields_def save_task_def
      validate_task_def trim_def is_ws_def Let_def
      ex_db_def ex_task1_def ex_task2_def ex_admin_def ex_env_def ex_done_def)

section \<open>Completion timestamp\<close>

lemma pre_save_status [simp]: "t_status (pre_save e m t) = t_status t"
  by (simp add: pre_save_def Let_def)

lemma pre_save_completedAt:
  "t_completedAt (pre_save e m t) =
     (if m then (if t_status t = ''completed'' then Some (now e) else None)
      else t_completedAt t)"
  by (simp add: pre_save_def Let_def)

lemma assign_fields_completedAt [simp]:
  "t_completedAt (assign_fields b t) = t_completedAt t"
  by (simp add: assign_fields_def Let_def split: option.splits)

lemma save_task_Inr:
  assumes "save_task e t t1 = Inr t'"
  shows "t_status t' = t_status t1"
    and "t_completedAt t' =
           (if t_status t1 \<noteq> t_status t
            then (if t_status t1 = ''completed'' then Some (now e) else None)
            else t_completedAt t1)"
proof -
  define t2 where "t2 = pre_save e (t_status t1 \<noteq> t_status t) t1"
  from assms have t': "t' = (if t2 = t then t else t2\<lparr>t_updatedAt := now e\<rparr>)"
    by (auto simp: save_task_def t2_def Let_def split: list.splits)
  have s2: "t_status t2 = t_status t1"
    and c2: "t_completedAt t2 =
           (if t_status t1 \<noteq> t_status t
            then (if t_status t1 = ''completed'' then Some (now e) else None)
            else t_completedAt t1)"
    by (simp_all add: t2_def pre_save_completedAt)
  show "t_status t' = t_status t1"
    using s2 by (cases "t2 = t") (simp_all add: t')
  show "t_completedAt t' =
           (if t_status t1 \<noteq> t_status t
            then (if t_status t1 = ''completed'' then Some (now e) else None)
            else t_completedAt t1)"
    using c2 by (cases "t2 = t") (simp_all add: t')
qed

lemma createTask_created:
  assumes "createTask e d caller b = (res, d')" and "data res = Some t"
  shows "completion_inv t \<and> tasks d' = tasks d @ [t]"
proof -
  from assms have t: "t = pre_save e (tb_status b \<noteq> None) (new_task e caller b)"
    and d': "tasks d' = tasks d @ [t]"
    by (auto simp: createTask_def Let_def validation_failed_def fail_def ok_data_def
        split: list.splits option.splits)
  have "completion_inv t"
  proof (cases "tb_status b")
    case None
    then show ?thesis
      by (simp add: t completion_inv_def pre_save_completedAt new_task_def)
  next
    case (Some x)
    then show ?thesis
      by (simp add: t completion_inv_def pre_save_completedAt new_task_def)
  qed
  with d' show ?thesis by simp
qed

lemma updateTask_updated:
  assumes "updateTask e d caller i b = (res, d')" and "data res = Some t'"
  shows "\<exists>t. find (updateTask_query caller i) (tasks d) = Some t \<and>
             tasks d' = replaceTask t' (tasks d) \<and>
             (t_status t' \<noteq> t_status t \<longrightarrow>
                t_completedAt t' = (if t_status t' = ''completed'' then Some (now e) else None)) \<and>
             (t_status t' \<noteq> t_status t \<or> completion_inv t \<longrightarrow> completion_inv t')"
proof (cases "find (updateTask_query caller i) (tasks d)")
  case None
  with assms show ?thesis by (auto simp: updateTask_def fail_def)
next
  case (Some t)
  with assms have sv: "save_task e t (assign_fields b t) = Inr t'"
    and d': "tasks d' = replaceTask t' (tasks d)"
    by (auto simp: updateTask_def validation_failed_def ok_data_def split: sum.splits)
  note st = save_task_Inr [OF sv]
  have "t_status t' \<noteq> t_status t \<longrightarrow>
          t_completedAt t' = (if t_status t' = ''completed'' then Some (now e) else None)"
    using st by simp
  moreover have "t_status t' \<noteq> t_status t \<or> completion_inv t \<longrightarrow> completion_inv t'"
    using st by (auto simp: completion_inv_def split: if_splits)
  ultimately show ?thesis using Some d' by simp
qed

lemma bulkUpdateStatus_updated:
  assumes "bulkUpdateStatus e d caller ids s = (res, d')" and "success res"
    and "t' \<in> set (tasks d')" and "t_id t' \<in> set (the ids)" and "t_user t' = u_id caller"
  shows "s = Some (t_status t') \<and> completion_inv t'"
proof -
  from assms(1,2) obtain js st where ids: "ids = Some js" and s: "s = Some st"
    and d': "tasks d' = map (\<lambda>t. if t_id t \<in> set js \<and> t_user t = u_id caller
                                  then bulk_update e st t else t) (tasks d)"
    by (auto simp: bulkUpdateStatus_def fail_def Let_def split: option.splits if_splits)
  from assms(3) d' obtain t where "t \<in> set (tasks d)"
    and t': "t' = (if t_id t \<in> set js \<and> t_user t = u_id caller then bulk_update e st t else t)"
    by auto
  with assms(4,5) ids have "t' = bulk_update e st t"
    by (auto simp: bulk_update_def split: if_splits)
  then show ?thesis
    by (simp add: s bulk_update_def completion_inv_def)
qed

text \<open>
  C4. After each of the three operations that write a status, the completion time of
  the written task is set exactly when its status is \<^verbatim>\<open>completed\<close>.
  Create: the task returned and appended to the store.
  Update through save: when the status changed, the completion time is the time of the
  save if the new status is \<^verbatim>\<open>completed\<close> and is cleared otherwise; in either case
  the invariant holds afterwards whenever the status changed or the invariant held before.
  Bulk update: every task of the caller among the given ids carries the new status
  and satisfies the invariant.
\<close>

theorem completedAt_iff_completed:
  "(createTask e d caller b = (res, d') \<and> data res = Some t
      \<longrightarrow> completion_inv t \<and> tasks d' = tasks d @ [t])
   \<and> (updateTask e d caller i b = (res, d') \<and> data res = Some t
      \<longrightarrow> (\<exists>t0. find (updateTask_query caller i) (tasks d) = Some t0 \<and>
             tasks d' = replaceTask t (tasks d) \<and>
             (t_status t \<noteq> t_status t0 \<longrightarrow>
                t_completedAt t = (if t_status t = ''completed'' then Some (now e) else None)) \<and>
             (t_status t \<noteq> t_status t0 \<or> completion_inv t0 \<longrightarrow> completion_inv t)))
   \<and> (bulkUpdateStatus e d caller ids s = (res, d') \<and> success res
      \<longrightarrow> (\<forall>x \<in> set (tasks d'). t_id x \<in> set (the ids) \<and> t_user x = u_id caller
             \<longrightarrow> s = Some (t_status x) \<and> completion_inv x))"
  using createTask_created [of e d caller b res d' t]
    updateTask_updated [of e d caller i b res d' t]
    bulkUpdateStatus_updated [of e d caller ids s res d']
  by blast


lemma trim_ship_it: "trim ''Ship it'' = ''Ship it''"
  by (simp add: trim_def is_ws_def)

theorem completedAt_iff_completed_witness:
  "createTask ex_env ex_db ex_ann ex_new =
     (ok_data 201 (Some ''Task created successfully'') ex_task3,
      ex_db\<lparr>tasks := [ex_task1, ex_task2, ex_task3]\<rparr>)
   \<and> completion_inv ex_task3
   \<and> updateTask ex_env ex_db ex_admin ''ddddddddddddddddddddddd2'' ex_reopen =
     (ok_data 200 (Some ''Task updated successfully'')
        (ex_task2\<lparr>t_status := ''in-progress'', t_completedAt := None, t_updatedAt := 1000\<rparr>),
      ex_db\<lparr>tasks := [ex_task1,
        ex_task2\<lparr>t_status := ''in-progress'', t_completedAt := None, t_updatedAt := 1000\<rparr>]\<rparr>)
   \<and> completion_inv
       (ex_task2\<lparr>t_status := ''in-progress'', t_completedAt := None, t_updatedAt := 1000\<rparr>)
   \<and> bulkUpdateStatus ex_env ex_db ex_ann (Some [''ddddddddddddddddddddddd1'', ''ddddddddddddddddddddddd2'']) (Some ''completed'') =
     (ok_msg 200 ''1 tasks updated successfully'',
      ex_db\<lparr>tasks := [ex_task1\<lparr>t_status := ''completed'', t_completedAt := Some 1000,
                                t_updatedAt := 1000\<rparr>, ex_task2]\<rparr>)
   \<and> completion_inv
       (ex_task1\<lparr>t_status := ''completed'', t_completedAt := Some 1000, t_updatedAt := 1000\<rparr>)"
proof -
  have c: "createTask ex_env ex_db ex_ann ex_new =
     (ok_data 201 (Some ''Task created successfully'') ex_task3,
      ex_db\<lparr>tasks := [ex_task1, ex_task2, ex_task3]\<rparr>)"
    by (simp add: createTask_def new_task_def validate_task_def pre_save_def Let_def
        trim_ship_it ex_new_def ex_task3_def ex_db_def ex_task1_def ex_task2_def ex_ann_def ex_env_def)
  have u: "updateTask ex_env ex_db ex_admin ''ddddddddddddddddddddddd2'' ex_reopen =
     (ok_data 200 (Some ''Task updated successfully'')
        (ex_task2\<lparr>t_status := ''in-progress'', t_completedAt := None, t_updatedAt := 1000\<rparr>),
      ex_db\<lparr>tasks := [ex_task1,
        ex_task2\<lparr>t_status := ''in-progress'', t_completedAt := None, t_updatedAt := 1000\<rparr>]\<rparr>)"
    by (simp add: updateTask_def updateTask_query_def assign_fields_def save_task_def
        replaceTask_def validate_task_def pre_save_def Let_def ex_reopen_def ex_db_def
        ex_task1_def ex_task2_def ex_admin_def ex_env_def)
  have f: "find (updateTask_query ex_admin ''ddddddddddddddddddddddd2'') (tasks ex_db) = Some ex_task2"
    by (simp add: updateTask_query_def ex_db_def ex_task1_def ex_task2_def ex_admin_def)
  have b: "bulkUpdateStatus ex_env ex_db ex_ann (Some [''ddddddddddddddddddddddd1'', ''ddddddddddddddddddddddd2'']) (Some ''completed'') =
     (ok_msg 200 ''1 tasks updated successfully'',
      ex_db\<lparr>tasks := [ex_task1\<lparr>t_status := ''completed'', t_completedAt := Some 1000,
                                t_updatedAt := 1000\<rparr>, ex_task2]\<rparr>)"
    by (simp add: bulkUpdateStatus_def bulk_update_def Let_def string_of_nat.simps
        digit_char_def ex_db_def ex_task1_def ex_task2_def ex_ann_def ex_env_def)
  have "completion_inv ex_task3"
    using completedAt_iff_completed
      [of ex_env ex_db ex_ann ex_new "ok_data 201 (Some ''Task created successfully'') ex_task3"
          "ex_db\<lparr>tasks := [ex_task1, ex_task2, ex_task3]\<rparr>" ex_task3] c
    by (simp add: ok_data_def)
  moreover have "completion_inv
       (ex_task2\<lparr>t_status := ''in-progress'', t_completedAt := None, t_updatedAt := 1000\<rparr>)"
    using completedAt_iff_completed
      [of ex_env ex_db ex_admin ex_reopen
          "ok_data 200 (Some ''Task updated successfully'')
            (ex_task2\<lparr>t_status := ''in-progress'', t_completedAt := None, t_updatedAt := 1000\<rparr>)"
          "ex_db\<lparr>tasks := [ex_task1,
            ex_task2\<lparr>t_status := ''in-progress'', t_completedAt := None, t_updatedAt := 1000\<rparr>]\<rparr>"
          "ex_task2\<lparr>t_status := ''in-progress'', t_completedAt := None, t_updatedAt := 1000\<rparr>"
          "''ddddddddddddddddddddddd2''"] u f
    by (simp add: ok_data_def ex_task2_def)
  moreover have "completion_inv
       (ex_task1\<lparr>t_status := ''completed'', t_completedAt := Some 1000, t_updatedAt := 1000\<rparr>)"
    using completedAt_iff_completed
      [of ex_env ex_db ex_ann _ "ok_msg 200 ''1 tasks updated successfully''"
          "ex_db\<lparr>tasks := [ex_task1\<lparr>t_status := ''completed'', t_completedAt := Some 1000,
                                t_updatedAt := 1000\<rparr>, ex_task2]\<rparr>" _ _
          "Some [''ddddddddddddddddddddddd1'', ''ddddddddddddddddddddddd2'']" "Some ''completed''"] b
    by (simp add: ok_msg_def ex_task1_def ex_ann_def)
  ultimately show ?thesis using c u b by simp
qed


section \<open>Accounts\<close>

lemma castObjectId_admin: "castObjectId ''aaaaaaaaaaaaaaaaaaaaaaa1'' = Some ''aaaaaaaaaaaaaaaaaaaaaaa1''"
  by (simp add: castObjectId_def is_hex_def toLowerCase_def)

lemma castObjectId_ann: "castObjectId ''bbbbbbbbbbbbbbbbbbbbbbb2'' = Some ''bbbbbbbbbbbbbbbbbbbbbbb2''"
  by (simp add: castObjectId_def is_hex_def toLowerCase_def)

lemma castObjectId_upper: "castObjectId ''AAAAAAAAAAAAAAAAAAAAAAA1'' = Some ''aaaaaaaaaaaaaaaaaaaaaaa1''"
  by (simp add: castObjectId_def is_hex_def toLowerCase_def)

text \<open>
  The two guards hold for the spelling the comparison expects: a caller whose account
  exists and who names it by its canonical id is answered 400 on a role change and on
  a deletion, and the store is left as it was.
\<close>

lemma self_guard_canonical:
  assumes "castObjectId (u_id caller) = Some (u_id caller)"
    and "findById (users d) (u_id caller) = Some acct"
    and "ub_role b = Some r" and "r \<noteq> []" and "r \<noteq> u_role caller"
  shows "updateUser e d caller (u_id caller) b = (fail 400 ''You cannot change your own role'', d)
       \<and> deleteUser d caller (u_id caller) = (fail 400 ''You cannot delete your own account'', d)"
  using assms by (simp add: updateUser_def deleteUser_def truthy_def)

text \<open>
  C6 fails on the code. The administrator of the example store names its own account
  with the hexadecimal digits in upper case. The lookup casts the string and finds the
  account, the guard compares the string itself with the canonical id and does not
  fire: the update turns the administrator into a plain user, and the deletion removes
  the administrator's account and its task, both answered 200.
\<close>

theorem self_guard_bypass:
  "u_id ex_admin = ''aaaaaaaaaaaaaaaaaaaaaaa1'' \<and> u_role ex_admin = ''admin''
   \<and> updateUser ex_env ex_db ex_admin ''AAAAAAAAAAAAAAAAAAAAAAA1''
        \<lparr>ub_name = None, ub_email = None, ub_role = Some ''user''\<rparr>
       = (ok_data 200 (Some ''User updated successfully'') (view (ex_admin\<lparr>u_role := ''user''\<rparr>)),
          ex_db\<lparr>users := [ex_admin\<lparr>u_role := ''user''\<rparr>, ex_ann]\<rparr>)
   \<and> deleteUser ex_db ex_admin ''AAAAAAAAAAAAAAAAAAAAAAA1''
       = (ok_msg 200 ''User and associated tasks deleted successfully'',
          \<lparr>users = [ex_ann], tasks = [ex_task1]\<rparr>)"
  by (simp add: updateUser_def deleteUser_def castObjectId_upper findById_def truthy_def
      validate_update_def update_fields_def updateById_def
      ex_db_def ex_admin_def ex_ann_def ex_task1_def ex_task2_def)

text \<open>
  C8. When the deletion of an account is answered with success, the id of the route
  names an account of the store, no task of the store refers to that account any more,
  every other task is still there, and the account document is removed.
\<close>

theorem deleteUser_cascade:
  assumes "deleteUser d caller raw = (res, d')" and "success res"
  shows "\<exists>i u. castObjectId raw = Some i \<and> findById (users d) i = Some u
       \<and> filter (\<lambda>t. t_user t = i) (tasks d') = []
       \<and> tasks d' = filter (\<lambda>t. t_user t \<noteq> i) (tasks d)
       \<and> users d' = deleteFirst (\<lambda>x. u_id x = i) (users d)"
  using assms
  by (auto simp: deleteUser_def fail_def ok_msg_def filter_empty_conv
      split: option.splits if_splits)

theorem deleteUser_cascade_witness:
  "deleteUser ex_db ex_admin ''bbbbbbbbbbbbbbbbbbbbbbb2'' =
     (ok_msg 200 ''User and associated tasks deleted successfully'',
      \<lparr>users = [ex_admin], tasks = [ex_task2]\<rparr>)
   \<and> filter (\<lambda>t. t_user t = ''bbbbbbbbbbbbbbbbbbbbbbb2'') [ex_task2] = []"
proof -
  have run: "deleteUser ex_db ex_admin ''bbbbbbbbbbbbbbbbbbbbbbb2'' =
     (ok_msg 200 ''User and associated tasks deleted successfully'',
      \<lparr>users = [ex_admin], tasks = [ex_task2]\<rparr>)"
    by (simp add: deleteUser_def castObjectId_ann findById_def ex_db_def ex_admin_def
        ex_ann_def ex_task1_def ex_task2_def)
  show ?thesis
    using deleteUser_cascade [OF run] run castObjectId_ann by (simp add: ok_msg_def)
qed

lemma findById_append_new:
  "findById us i = None \<Longrightarrow> u_id u = i \<Longrightarrow> findById (us @ [u]) i = Some u"
  unfolding findById_def by (induction us) (auto split: if_splits)

lemma updateById_append_new:
  "findById us i = None \<Longrightarrow> u_id u = i \<Longrightarrow> updateById i f (us @ [u]) = us @ [f u]"
  unfolding findById_def updateById_def by (induction us) (auto split: if_splits)

text \<open>
  C7. A registration with an unused email, inputs that pass the schema and a fresh id
  is answered 201; the account it appends to the store carries the requested role
  when that is \<^verbatim>\<open>user\<close> or \<^verbatim>\<open>admin\<close> and the role \<^verbatim>\<open>user\<close> for any other value and
  for an absent role; the role in the response is the stored one.
\<close>

theorem register_role:
  assumes "findOneByEmail (users d) (rb_email b) = None"
    and "validate_user e (rb_name b) (rb_email b) (rb_password b) = []"
    and "findById (users d) (new_id e) = None"
  shows "\<exists>res d' u.
           register e d b = (res, d') \<and> status res = 201 \<and> users d' = users d @ [u] \<and>
           u_id u = new_id e \<and> u_email u = rb_email b \<and>
           u_role u = (if rb_role b = Some ''user'' \<or> rb_role b = Some ''admin''
                       then the (rb_role b) else ''user'') \<and>
           map_option ad_role (data res) = Some (u_role u)"
proof -
  define u0 where "u0 = \<lparr>u_id = new_id e, u_name = rb_name b, u_email = rb_email b,
      u_password = bcrypt_hash e (rb_password b), u_role = validRole (rb_role b),
      u_refreshToken = None, u_passwordChangedAt = None\<rparr>"
  have role: "validRole (rb_role b) =
      (if rb_role b = Some ''user'' \<or> rb_role b = Some ''admin''
       then the (rb_role b) else ''user'')"
    by (auto simp: validRole_def split: option.splits)
  have upd: "updateById (new_id e) (\<lambda>x. x\<lparr>u_refreshToken := Some (generateRefreshToken e u0)\<rparr>)
               (users d @ [u0]) = users d @ [u0\<lparr>u_refreshToken := Some (generateRefreshToken e u0)\<rparr>]"
    by (rule updateById_append_new [OF assms(3)]) (simp add: u0_def)
  have "register e d b = sendTokenResponse e (d\<lparr>users := users d @ [u0]\<rparr>) u0 201
          ''Registration successful''"
    using assms by (simp add: register_def u0_def Let_def)
  then have "register e d b =
      (ok_data 201 (Some ''Registration successful'')
         \<lparr>ad_id = u_id u0, ad_name = u_name u0, ad_email = u_email u0, ad_role = u_role u0,
          ad_accessToken = generateAccessToken e u0, ad_refreshToken = generateRefreshToken e u0\<rparr>,
       d\<lparr>users := users d @ [u0\<lparr>u_refreshToken := Some (generateRefreshToken e u0)\<rparr>]\<rparr>)"
    using upd by (simp add: sendTokenResponse_def Let_def u0_def)
  then show ?thesis
    by (simp add: ok_data_def u0_def role)
qed


theorem register_role_witness:
  "findOneByEmail (users ex_db) (rb_email ex_register) = None
   \<and> validate_user ex_env ''Cy'' ''cy@x.io'' ''Secret1'' = []
   \<and> findById (users ex_db) (new_id ex_env) = None
   \<and> status (fst (register ex_env ex_db ex_register)) = 201
   \<and> map u_role (users (snd (register ex_env ex_db ex_register))) = [''admin'', ''user'', ''user'']
   \<and> map u_role (users (snd (register ex_env ex_db (ex_register\<lparr>rb_role := Some ''admin''\<rparr>))))
       = [''admin'', ''user'', ''admin'']"
proof -
  have h: "findOneByEmail (users ex_db) (rb_email ex_register) = None"
    "validate_user ex_env ''Cy'' ''cy@x.io'' ''Secret1'' = []"
    "findById (users ex_db) (new_id ex_env) = None"
    by (simp_all add: ex_register_def ex_db_def ex_admin_def ex_ann_def ex_env_def
        findOneByEmail_def findById_def validate_user_def)
  have roles: "map u_role (users ex_db) = [''admin'', ''user'']"
    by (simp add: ex_db_def ex_admin_def ex_ann_def)
  obtain res d' u where r: "register ex_env ex_db ex_register = (res, d')" "status res = 201"
    "users d' = users ex_db @ [u]" "u_role u = ''user''"
    using register_role [of ex_db ex_register ex_env] h
    by (auto simp: ex_register_def)
  obtain res2 d2 u2 where r2:
    "register ex_env ex_db (ex_register\<lparr>rb_role := Some ''admin''\<rparr>) = (res2, d2)"
    "users d2 = users ex_db @ [u2]" "u_role u2 = ''admin''"
    using register_role [of ex_db "ex_register\<lparr>rb_role := Some ''admin''\<rparr>" ex_env] h
    by (auto simp: ex_register_def)
  show ?thesis
    using h r r2 roles by simp
qed

section \<open>Pagination of the task list\<close>








lemma takeWhile_Nil: "takeWhile P xs = [] \<longleftrightarrow> (case xs of [] \<Rightarrow> True | x # r \<Rightarrow> \<not> P x)"
  by (cases xs) auto



lemma to_double_exact: "\<bar>k\<bar> < 2 ^ 53 \<Longrightarrow> to_double k = Fin k"
proof -
  assume k: "\<bar>k\<bar> < 2 ^ 53"
  then have n: "nat \<bar>k\<bar> < 2 ^ 53"
    by (simp add: nat_less_iff)
  then have r: "round_nat (nat \<bar>k\<bar>) = nat \<bar>k\<bar>"
    by (simp add: round_nat_def)
  have "(2::nat) ^ 53 \<le> 2 ^ 1024"
    by (rule power_increasing) simp_all
  with n have "\<not> 2 ^ 1024 \<le> nat \<bar>k\<bar>"
    by linarith
  then show ?thesis
    unfolding to_double_def r Let_def by simp
qed





lemma parseInt_7px: "parseInt ''7px'' = Fin 7"
  by (simp add: parseInt_def is_ws_def digit_of_def Let_def to_double_exact)

text \<open>
  Beyond \<open>2 ^ 53\<close> the parsed number is the nearest double, not the digits.
\<close>

lemma bitlen_big: "bitlen 9007199254740993 = 54"
  by (simp add: bitlen.simps)

lemma round_big: "round_nat 9007199254740993 = 9007199254740992"
  by (simp add: round_nat_def bitlen_big Let_def)

lemma to_double_big: "to_double 9007199254740993 = Fin 9007199254740992"
proof -
  have "\<not> (2::nat) ^ 1024 \<le> 9007199254740992" by simp
  then show ?thesis by (simp add: to_double_def round_big Let_def)
qed

lemma parseInt_rounds: "parseInt ''9007199254740993'' = Fin 9007199254740992"
  by (simp add: parseInt_def is_ws_def digit_of_def Let_def to_double_big)







section \<open>Interleaved refresh requests\<close>

lemma refresh_steps_sequential:
  "run e [False, False] (d, Waiting tok, b) =
     (snd (refreshToken e d tok), Done (fst (refreshToken e d tok)), b)"
  by (cases "refresh_read e d tok")
     (auto simp: refreshToken_def split: prod.splits)

text \<open>
  C9, as claimed, fails. Two requests present the stored token of the plain user; each
  loads and compares the account before either saves, and both are answered 200 with a
  new pair.
\<close>

theorem refresh_race_counterexample:
  "run ex_env [False, True, False, True]
       (ex_db, Waiting (Some ''R-b2-0''), Waiting (Some ''R-b2-0'')) =
     (ex_db\<lparr>users := [ex_admin, ex_ann\<lparr>u_refreshToken := Some ''R-b2-1''\<rparr>]\<rparr>,
      Done (ok_data 200 (Some ''Token refreshed successfully'') (''A-b2'', ''R-b2-1'')),
      Done (ok_data 200 (Some ''Token refreshed successfully'') (''A-b2'', ''R-b2-1'')))"
  by (simp add: refresh_read_def refresh_write_def findById_def updateById_def Let_def
      ex_db_def ex_admin_def ex_ann_def ex_env_def ex_token_defs)


lemma run_first:
  "run e (False # False # ws) (d, Waiting tok, b) =
     run e ws (snd (refreshToken e d tok), Done (fst (refreshToken e d tok)), b)"
  by (cases "refresh_read e d tok")
     (auto simp: refreshToken_def split: prod.splits)

lemma run_second:
  "run e (True # True # ws) (d, a, Waiting tok) =
     run e ws (snd (refreshToken e d tok), a, Done (fst (refreshToken e d tok)))"
  by (cases "refresh_read e d tok")
     (auto simp: refreshToken_def split: prod.splits)

lemma refreshToken_replay:
  assumes "refreshToken e d (Some R) = (res, d')" and "data res = Some (a, N)" and "N \<noteq> R"
  shows "InvalidOrExpiredToken (fst (refreshToken e d' (Some R))) \<and>
         snd (refreshToken e d' (Some R)) = d'"
proof -
  obtain u where u: "jwt_verify e R = Inr (u_id u)" "R \<noteq> []"
    "findById (users d') (u_id u) = Some (u\<lparr>u_refreshToken := Some N\<rparr>)"
    using refreshToken_success [OF assms(1,2)] by blast
  show ?thesis
  proof (rule refreshToken_mismatch [OF u(2)])
    fix i v
    assume "jwt_verify e R = Inr i" "findById (users d') i = Some v"
    with u assms(3) show "u_refreshToken v \<noteq> Some R" by auto
  qed
qed

text \<open>
  C9, amended. The rotation is a read with its comparison followed by a separate write
  that is not conditioned on the token read. When two requests presenting the same
  token R run one after the other, in either order, and the first is answered with a
  new refresh token other than R, the second is answered 401 and the store is the one
  the first request left.
\<close>

theorem refresh_serial_single_use:
  "(run e [False, False, True, True] (d, Waiting (Some R), Waiting (Some R)) = (d', ra, rb) \<and>
      ra = Done r1 \<and> data r1 = Some (a, N) \<and> N \<noteq> R
    \<longrightarrow> (\<exists>r2. rb = Done r2 \<and> InvalidOrExpiredToken r2) \<and> d' = snd (refreshToken e d (Some R)))
   \<and> (run e [True, True, False, False] (d, Waiting (Some R), Waiting (Some R)) = (d', ra, rb) \<and>
      rb = Done r1 \<and> data r1 = Some (a, N) \<and> N \<noteq> R
    \<longrightarrow> (\<exists>r2. ra = Done r2 \<and> InvalidOrExpiredToken r2) \<and> d' = snd (refreshToken e d (Some R)))"
proof (intro conjI impI)
  assume h: "run e [False, False, True, True] (d, Waiting (Some R), Waiting (Some R)) = (d', ra, rb) \<and>
      ra = Done r1 \<and> data r1 = Some (a, N) \<and> N \<noteq> R"
  define d1 where "d1 = snd (refreshToken e d (Some R))"
  have "run e [False, False, True, True] (d, Waiting (Some R), Waiting (Some R)) =
      (snd (refreshToken e d1 (Some R)), Done (fst (refreshToken e d (Some R))),
       Done (fst (refreshToken e d1 (Some R))))"
    by (simp only: run_first run_second run.simps(1) d1_def)
  with h have r1: "r1 = fst (refreshToken e d (Some R))"
    and rb: "rb = Done (fst (refreshToken e d1 (Some R)))"
    and d': "d' = snd (refreshToken e d1 (Some R))"
    by auto
  have "refreshToken e d (Some R) = (r1, d1)" by (simp add: r1 d1_def)
  from refreshToken_replay [OF this] h
  have "InvalidOrExpiredToken (fst (refreshToken e d1 (Some R)))"
    and "snd (refreshToken e d1 (Some R)) = d1" by simp_all
  then show "\<exists>r2. rb = Done r2 \<and> InvalidOrExpiredToken r2"
    and "d' = snd (refreshToken e d (Some R))"
    by (simp_all add: rb d' d1_def)
next
  assume h: "run e [True, True, False, False] (d, Waiting (Some R), Waiting (Some R)) = (d', ra, rb) \<and>
      rb = Done r1 \<and> data r1 = Some (a, N) \<and> N \<noteq> R"
  define d1 where "d1 = snd (refreshToken e d (Some R))"
  have "run e [True, True, False, False] (d, Waiting (Some R), Waiting (Some R)) =
      (snd (refreshToken e d1 (Some R)), Done (fst (refreshToken e d1 (Some R))),
       Done (fst (refreshToken e d (Some R))))"
    by (simp only: run_first run_second run.simps(1) d1_def)
  with h have r1: "r1 = fst (refreshToken e d (Some R))"
    and ra: "ra = Done (fst (refreshToken e d1 (Some R)))"
    and d': "d' = snd (refreshToken e d1 (Some R))"
    by auto
  have "refreshToken e d (Some R) = (r1, d1)" by (simp add: r1 d1_def)
  from refreshToken_replay [OF this] h
  have "InvalidOrExpiredToken (fst (refreshToken e d1 (Some R)))"
    and "snd (refreshToken e d1 (Some R)) = d1" by simp_all
  then show "\<exists>r2. ra = Done r2 \<and> InvalidOrExpiredToken r2"
    and "d' = snd (refreshToken e d (Some R))"
    by (simp_all add: ra d' d1_def)
qed

theorem refresh_serial_single_use_witness:
  "run ex_env [False, False, True, True]
       (ex_db, Waiting (Some ''R-b2-0''), Waiting (Some ''R-b2-0'')) =
     (ex_db\<lparr>users := [ex_admin, ex_ann\<lparr>u_refreshToken := Some ''R-b2-1''\<rparr>]\<rparr>,
      Done (ok_data 200 (Some ''Token refreshed successfully'') (''A-b2'', ''R-b2-1'')),
      Done (fail 401 ''Invalid refresh token''))
   \<and> run ex_env [True, True, False, False]
       (ex_db, Waiting (Some ''R-b2-0''), Waiting (Some ''R-b2-0'')) =
     (ex_db\<lparr>users := [ex_admin, ex_ann\<lparr>u_refreshToken := Some ''R-b2-1''\<rparr>]\<rparr>,
      Done (fail 401 ''Invalid refresh token''),
      Done (ok_data 200 (Some ''Token refreshed successfully'') (''A-b2'', ''R-b2-1'')))
   \<and> InvalidOrExpiredToken (fail 401 ''Invalid refresh token'' :: (string \<times> string) response)"
proof -
  have r1: "run ex_env [False, False, True, True]
       (ex_db, Waiting (Some ''R-b2-0''), Waiting (Some ''R-b2-0'')) =
     (ex_db\<lparr>users := [ex_admin, ex_ann\<lparr>u_refreshToken := Some ''R-b2-1''\<rparr>]\<rparr>,
      Done (ok_data 200 (Some ''Token refreshed successfully'') (''A-b2'', ''R-b2-1'')),
      Done (fail 401 ''Invalid refresh token''))"
    by (simp add: refresh_read_def refresh_write_def findById_def updateById_def Let_def
        ex_db_def ex_admin_def ex_ann_def ex_env_def ex_token_defs)
  have r2: "run ex_env [True, True, False, False]
       (ex_db, Waiting (Some ''R-b2-0''), Waiting (Some ''R-b2-0'')) =
     (ex_db\<lparr>users := [ex_admin, ex_ann\<lparr>u_refreshToken := Some ''R-b2-1''\<rparr>]\<rparr>,
      Done (fail 401 ''Invalid refresh token''),
      Done (ok_data 200 (Some ''Token refreshed successfully'') (''A-b2'', ''R-b2-1'')))"
    by (simp add: refresh_read_def refresh_write_def findById_def updateById_def Let_def
        ex_db_def ex_admin_def ex_ann_def ex_env_def ex_token_defs)
  have "InvalidOrExpiredToken (fail 401 ''Invalid refresh token'' :: (string \<times> string) response)"
    using refresh_serial_single_use
      [of ex_env ex_db "''R-b2-0''"
          "ex_db\<lparr>users := [ex_admin, ex_ann\<lparr>u_refreshToken := Some ''R-b2-1''\<rparr>]\<rparr>"
          "Done (ok_data 200 (Some ''Token refreshed successfully'') (''A-b2'', ''R-b2-1''))"
          "Done (fail 401 ''Invalid refresh token'')"
          "ok_data 200 (Some ''Token refreshed successfully'') (''A-b2'', ''R-b2-1'')"
          "''A-b2''" "''R-b2-1''"] r1
    by (simp add: ok_data_def)
  then show ?thesis using r1 r2 by simp
qed


end
